theory Spec2Isabelle
  imports Complex_Main
begin

section \<open>Python values and exceptions\<close>

text \<open>
  Exceptions of the Python source are values: a function that can raise returns
  \<open>error + 'a\<close>, with \<open>Inl\<close> for the exception.  Text is a list of 8-bit characters, one
  \<open>char\<close> per code point: the model covers lines whose code points lie in Latin-1.
  Floating-point quantities (clock readings, the confidence weight) are exact rationals.
\<close>

datatype error = AttributeError | ValueError | TypeError | KeyError string

subsection \<open>\<open>str.lower\<close>, \<open>str.isspace\<close>, \<open>str.isdigit\<close>, \<open>str.strip\<close>, \<open>int(str)\<close>\<close>

definition code :: "char \<Rightarrow> nat" where
  "code c = of_char c"

text \<open>\<open>str.lower()\<close> on Latin-1: A-Z and the accented capitals U+00C0..U+00DE (but not the
  multiplication sign U+00D7) move up by 32; every other code point stays.\<close>

definition lower_char :: "char \<Rightarrow> char" where
  "lower_char c =
     (if (65 \<le> code c \<and> code c \<le> 90) \<or> (192 \<le> code c \<and> code c \<le> 222 \<and> code c \<noteq> 215)
      then char_of (code c + 32) else c)"

definition lower :: "string \<Rightarrow> string" where
  "lower s = map lower_char s"

text \<open>\<open>str.isspace\<close> per character, which is also what \<open>\s\<close> matches in a \<open>str\<close> pattern:
  TAB..CR, FS..US, space, NEL and the no-break space.\<close>

definition is_space :: "char \<Rightarrow> bool" where
  "is_space c = ((9 \<le> code c \<and> code c \<le> 13) \<or> (28 \<le> code c \<and> code c \<le> 32)
                  \<or> code c = 133 \<or> code c = 160)"

text \<open>\<open>\d\<close> in a \<open>str\<close> pattern matches the decimal digits (category Nd): in Latin-1 these are
  0-9 only.\<close>

definition is_decimal :: "char \<Rightarrow> bool" where
  "is_decimal c = (48 \<le> code c \<and> code c \<le> 57)"

text \<open>\<open>str.isdigit()\<close> also accepts the superscripts two, three and one (U+00B2, U+00B3,
  U+00B9), and is false on the empty string.\<close>

definition isdigit_char :: "char \<Rightarrow> bool" where
  "isdigit_char c = (is_decimal c \<or> code c = 178 \<or> code c = 179 \<or> code c = 185)"

definition isdigit :: "string \<Rightarrow> bool" where
  "isdigit s = (s \<noteq> [] \<and> list_all isdigit_char s)"

definition strip :: "string \<Rightarrow> string" where
  "strip s = rev (dropWhile is_space (rev (dropWhile is_space s)))"

text \<open>The value of a string of decimal digits, most significant digit first.\<close>

fun decimal_acc :: "int \<Rightarrow> string \<Rightarrow> int" where
  "decimal_acc acc [] = acc"
| "decimal_acc acc (c # cs) = decimal_acc (10 * acc + (int (code c) - 48)) cs"

definition decimal :: "string \<Rightarrow> int" where
  "decimal s = decimal_acc 0 s"

text \<open>\<open>int(s)\<close> as the source uses it, on a string that has passed \<open>isdigit()\<close>: such a string
  converts exactly when all its characters are decimal digits; a superscript digit raises
  ValueError.  Python integers are unbounded; the interpreter's configurable cap on the
  length of a decimal string (\<open>sys.set_int_max_str_digits\<close>) is not part of the model.\<close>

definition py_int :: "string \<Rightarrow> error + int" where
  "py_int s = (if s \<noteq> [] \<and> list_all is_decimal s then Inr (decimal s) else Inl ValueError)"

section \<open>Regular expressions of \<open>RateLimitPatterns\<close>\<close>

text \<open>
  The fourteen patterns use literals, \<open>.\<close>, \<open>\s\<close>, \<open>\d\<close>, the quantifiers \<open>*\<close>, \<open>*?\<close>, \<open>+\<close>,
  \<open>?\<close> on a single character class, and one capture group.  A pattern is the list of its
  items in order.  \<open>rmatch\<close> is the backtracking matcher of \<open>re\<close> anchored at the current
  position: a greedy quantifier first tries to take one more character, a lazy one first
  tries to stop; the first alternative that lets the rest of the pattern match wins.  The
  result of a successful match is the text of group 1 (\<open>None\<close> when the group took no part).
\<close>

datatype cls = Lit char | AnyChar | Whitespace | Digit

text \<open>All patterns are searched with \<open>re.IGNORECASE\<close>: a literal matches a character of the
  same lower case.  \<open>.\<close> matches everything but a newline.\<close>

fun cls_match :: "cls \<Rightarrow> char \<Rightarrow> bool" where
  "cls_match (Lit p) c = (lower_char c = lower_char p)"
| "cls_match AnyChar c = (code c \<noteq> 10)"
| "cls_match Whitespace c = is_space c"
| "cls_match Digit c = is_decimal c"

datatype item = Once cls | StarG cls | StarL cls | PlusG cls | OptG cls | GOpen | GClose

type_synonym pattern = "item list"

fun rmatch :: "pattern \<Rightarrow> string \<Rightarrow> string option \<Rightarrow> string option \<Rightarrow> string option option" where
  "rmatch [] s g cap = Some cap"
| "rmatch (Once c # r) [] g cap = None"
| "rmatch (Once c # r) (x # xs) g cap = (if cls_match c x then rmatch r xs g cap else None)"
| "rmatch (StarG c # r) [] g cap = rmatch r [] g cap"
| "rmatch (StarG c # r) (x # xs) g cap =
     (if cls_match c x
      then (case rmatch (StarG c # r) xs g cap of
              Some m \<Rightarrow> Some m
            | None \<Rightarrow> rmatch r (x # xs) g cap)
      else rmatch r (x # xs) g cap)"
| "rmatch (StarL c # r) [] g cap = rmatch r [] g cap"
| "rmatch (StarL c # r) (x # xs) g cap =
     (case rmatch r (x # xs) g cap of
        Some m \<Rightarrow> Some m
      | None \<Rightarrow> (if cls_match c x then rmatch (StarL c # r) xs g cap else None))"
| "rmatch (PlusG c # r) [] g cap = None"
| "rmatch (PlusG c # r) (x # xs) g cap =
     (if cls_match c x then rmatch (StarG c # r) xs g cap else None)"
| "rmatch (OptG c # r) [] g cap = rmatch r [] g cap"
| "rmatch (OptG c # r) (x # xs) g cap =
     (if cls_match c x
      then (case rmatch r xs g cap of
              Some m \<Rightarrow> Some m
            | None \<Rightarrow> rmatch r (x # xs) g cap)
      else rmatch r (x # xs) g cap)"
| "rmatch (GOpen # r) s g cap = rmatch r s (Some s) cap"
| "rmatch (GClose # r) s g cap =
     rmatch r s g (case g of Some s0 \<Rightarrow> Some (take (length s0 - length s) s0) | None \<Rightarrow> cap)"

text \<open>\<open>re.search\<close>: the leftmost position at which the pattern matches.\<close>

fun re_search :: "pattern \<Rightarrow> string \<Rightarrow> string option option" where
  "re_search p [] = rmatch p [] None None"
| "re_search p (x # xs) =
     (case rmatch p (x # xs) None None of
        Some m \<Rightarrow> Some m
      | None \<Rightarrow> re_search p xs)"

definition lit :: "string \<Rightarrow> pattern" where
  "lit s = map (\<lambda>c. Once (Lit c)) s"

definition digits_group :: pattern where
  "digits_group = [GOpen, PlusG Digit, GClose]"

definition APPROACHING_PATTERNS :: "pattern list" where
  "APPROACHING_PATTERNS =
    [ lit ''approaching'' @ [StarG AnyChar] @ lit ''rate'' @ [StarG Whitespace] @ lit ''limit''
        @ [StarL AnyChar] @ digits_group @ [StarL AnyChar] @ lit ''token'' @ [OptG (Lit CHR ''s'')],
      lit ''usage'' @ [StarG AnyChar] @ lit ''warning'' @ [StarL AnyChar] @ digits_group
        @ [StarL AnyChar] @ lit ''remaining'',
      lit ''rate'' @ [StarG Whitespace] @ lit ''limit'' @ [StarL AnyChar] @ lit ''approaching''
        @ [StarL AnyChar] @ digits_group,
      lit ''token'' @ [StarL AnyChar] @ lit ''usage'' @ [StarL AnyChar] @ lit ''high''
        @ [StarL AnyChar] @ digits_group,
      digits_group @ [StarL AnyChar] @ lit ''token'' @ [OptG (Lit CHR ''s''), StarL AnyChar]
        @ lit ''remaining'' @ [StarL AnyChar] @ lit ''session'' ]"

definition REACHED_PATTERNS :: "pattern list" where
  "REACHED_PATTERNS =
    [ lit ''rate'' @ [StarG Whitespace] @ lit ''limit'' @ [StarL AnyChar] @ lit ''reached''
        @ [StarL AnyChar] @ digits_group,
      lit ''limit'' @ [StarL AnyChar] @ lit ''exceeded'' @ [StarL AnyChar] @ digits_group
        @ [StarL AnyChar] @ lit ''token'' @ [OptG (Lit CHR ''s'')],
      lit ''maximum'' @ [StarL AnyChar] @ lit ''usage'' @ [StarL AnyChar] @ lit ''reached''
        @ [StarL AnyChar] @ digits_group,
      lit ''session'' @ [StarL AnyChar] @ lit ''limit'' @ [StarL AnyChar] @ lit ''hit''
        @ [StarL AnyChar] @ digits_group,
      lit ''quota'' @ [StarL AnyChar] @ lit ''exhausted'' @ [StarL AnyChar] @ digits_group,
      lit ''limit reached|'' @ digits_group ]"

definition MESSAGE_LIMIT_PATTERNS :: "pattern list" where
  "MESSAGE_LIMIT_PATTERNS =
    [ lit ''message'' @ [StarL AnyChar] @ lit ''limit'' @ [StarL AnyChar] @ lit ''reached''
        @ [StarL AnyChar] @ digits_group,
      lit ''conversation'' @ [StarL AnyChar] @ lit ''limit'' @ [StarL AnyChar] @ lit ''exceeded''
        @ [StarL AnyChar] @ digits_group,
      digits_group @ [StarL AnyChar] @ lit ''message'' @ [OptG (Lit CHR ''s''), StarL AnyChar]
        @ lit ''limit'' @ [StarL AnyChar] @ lit ''reached'' ]"

section \<open>\<open>RateLimitPatterns.extract_rate_limit_info\<close>\<close>

record rate_limit_info =
  rtype :: string
  limit_value :: "int option"
  raw_text :: string
  pattern_matched :: pattern

text \<open>One round of \<open>for pattern in patterns: match = re.search(...); if match: return ...\<close>:
  the first pattern of the list that matches, with the text of its group 1.\<close>

fun first_match :: "pattern list \<Rightarrow> string \<Rightarrow> (pattern \<times> string option) option" where
  "first_match [] s = None"
| "first_match (p # ps) s =
     (case re_search p s of
        Some m \<Rightarrow> Some (p, m)
      | None \<Rightarrow> first_match ps s)"

text \<open>\<open>int(match.group(1)) if match.group(1).isdigit() else None\<close>: \<open>isdigit\<close> on a group
  that took no part in the match is an AttributeError on \<open>None\<close>.\<close>

definition group_value :: "string option \<Rightarrow> error + int option" where
  "group_value m =
     (case m of
        None \<Rightarrow> Inl AttributeError
      | Some g \<Rightarrow>
          if isdigit g
          then (case py_int g of Inl e \<Rightarrow> Inl e | Inr v \<Rightarrow> Inr (Some v))
          else Inr None)"

definition make_info :: "string \<Rightarrow> string \<Rightarrow> pattern \<times> string option \<Rightarrow> error + rate_limit_info option" where
  "make_info ty text pm =
     (case group_value (snd pm) of
        Inl e \<Rightarrow> Inl e
      | Inr v \<Rightarrow> Inr (Some \<lparr>rtype = ty, limit_value = v, raw_text = strip text,
                             pattern_matched = fst pm\<rparr>))"

definition extract_rate_limit_info :: "string \<Rightarrow> error + rate_limit_info option" where
  "extract_rate_limit_info text =
     (let text_lower = lower text in
      case first_match APPROACHING_PATTERNS text_lower of
        Some pm \<Rightarrow> make_info ''approaching'' text pm
      | None \<Rightarrow>
     (case first_match REACHED_PATTERNS text_lower of
        Some pm \<Rightarrow> make_info ''reached'' text pm
      | None \<Rightarrow>
     (case first_match MESSAGE_LIMIT_PATTERNS text_lower of
        Some pm \<Rightarrow> make_info ''message_limit'' text pm
      | None \<Rightarrow> Inr None)))"

text \<open>Shape of the patterns, used by the proofs below: a pattern has a digits group when
  its only group is \<open>(\d+)\<close>.\<close>

definition gfree :: "pattern \<Rightarrow> bool" where
  "gfree p = list_all (\<lambda>i. i \<noteq> GOpen \<and> i \<noteq> GClose) p"

fun has_digits_group :: "pattern \<Rightarrow> bool" where
  "has_digits_group [] = False"
| "has_digits_group (GOpen # r) =
     (case r of PlusG Digit # GClose # post \<Rightarrow> gfree post | _ \<Rightarrow> False)"
| "has_digits_group (GClose # r) = False"
| "has_digits_group (i # r) = has_digits_group r"


section \<open>\<open>SessionMetrics\<close>\<close>

text \<open>
  The object's attributes keep their names.  \<open>time.time()\<close> is an input of every method that
  reads the clock.  The dictionary returned by \<open>get_current_metrics\<close> is the record
  \<open>metrics\<close>, its keys prefixed with \<open>m_\<close>.
\<close>

record session_event =
  se_info :: rate_limit_info
  se_timestamp :: rat
  se_elapsed_time :: rat

record session_metrics =
  session_id :: string
  project_path :: string
  start_time :: rat
  token_usage :: "int list"
  message_count :: int
  cost_accumulator :: rat
  rate_limit_events :: "session_event list"
  peak_token_usage :: int
  peak_message_count :: int

record metrics =
  m_session_id :: string
  m_project_path :: string
  m_elapsed_time :: rat
  m_total_tokens :: int
  m_peak_token_usage :: int
  m_message_count :: int
  m_peak_message_count :: int
  m_rate_limit_events :: nat
  m_cost_estimate :: rat

definition SessionMetrics :: "string \<Rightarrow> string \<Rightarrow> rat \<Rightarrow> session_metrics" where
  "SessionMetrics sid path now =
     \<lparr>session_id = sid, project_path = path, start_time = now, token_usage = [],
      message_count = 0, cost_accumulator = 0, rate_limit_events = [],
      peak_token_usage = 0, peak_message_count = 0\<rparr>"

definition add_token_usage :: "int \<Rightarrow> session_metrics \<Rightarrow> session_metrics" where
  "add_token_usage tokens s =
     s\<lparr>token_usage := token_usage s @ [tokens],
       peak_token_usage := max (peak_token_usage s) tokens\<rparr>"

definition add_message :: "session_metrics \<Rightarrow> session_metrics" where
  "add_message s =
     (let s1 = s\<lparr>message_count := message_count s + 1\<rparr>
      in s1\<lparr>peak_message_count := max (peak_message_count s1) (message_count s1)\<rparr>)"

text \<open>\<open>add_rate_limit_event\<close> reads the clock twice: \<open>t1\<close> for the timestamp, \<open>t2\<close> for
  the elapsed time.\<close>

definition add_rate_limit_event :: "rate_limit_info \<Rightarrow> rat \<Rightarrow> rat \<Rightarrow> session_metrics \<Rightarrow> session_metrics" where
  "add_rate_limit_event event_data t1 t2 s =
     s\<lparr>rate_limit_events := rate_limit_events s @
         [\<lparr>se_info = event_data, se_timestamp = t1, se_elapsed_time = t2 - start_time s\<rparr>]\<rparr>"

text \<open>\<open>get_current_metrics\<close> assigns to no attribute, so the object is not returned; the
  clock reading \<open>now\<close> is its second input.\<close>

definition get_current_metrics :: "session_metrics \<Rightarrow> rat \<Rightarrow> metrics" where
  "get_current_metrics s now =
     \<lparr>m_session_id = session_id s, m_project_path = project_path s,
      m_elapsed_time = now - start_time s, m_total_tokens = sum_list (token_usage s),
      m_peak_token_usage = peak_token_usage s, m_message_count = message_count s,
      m_peak_message_count = peak_message_count s,
      m_rate_limit_events = length (rate_limit_events s), m_cost_estimate = cost_accumulator s\<rparr>"

text \<open>A sequence of method calls on one object.\<close>

datatype mutation = AddTokenUsage int | AddMessage | AddRateLimitEvent rate_limit_info rat rat

fun apply_mutation :: "session_metrics \<Rightarrow> mutation \<Rightarrow> session_metrics" where
  "apply_mutation s (AddTokenUsage n) = add_token_usage n s"
| "apply_mutation s AddMessage = add_message s"
| "apply_mutation s (AddRateLimitEvent e t1 t2) = add_rate_limit_event e t1 t2 s"

definition apply_mutations :: "session_metrics \<Rightarrow> mutation list \<Rightarrow> session_metrics" where
  "apply_mutations s ms = foldl apply_mutation s ms"

text \<open>The values passed to \<open>add_token_usage\<close> by a sequence of calls, in order.\<close>

fun tokens_passed :: "mutation list \<Rightarrow> int list" where
  "tokens_passed [] = []"
| "tokens_passed (AddTokenUsage n # ms) = n # tokens_passed ms"
| "tokens_passed (m # ms) = tokens_passed ms"

fun messages_added :: "mutation list \<Rightarrow> int" where
  "messages_added [] = 0"
| "messages_added (AddMessage # ms) = 1 + messages_added ms"
| "messages_added (m # ms) = messages_added ms"

section \<open>Rendering integers: \<open>str(int)\<close>\<close>

definition digit_char :: "nat \<Rightarrow> char" where
  "digit_char d = char_of (48 + d)"

fun str_nat :: "nat \<Rightarrow> string" where
  "str_nat n = (if n < 10 then [digit_char n] else str_nat (n div 10) @ [digit_char (n mod 10)])"

definition str_int :: "int \<Rightarrow> string" where
  "str_int i = (if i < 0 then CHR ''-'' # str_nat (nat (- i)) else str_nat (nat i))"

section \<open>The legacy \<open>DatabaseManager\<close>: table \<open>plan_limits\<close>\<close>

text \<open>
  \<open>EnhancedProxyMonitor\<close> reaches the database through \<open>get_plan_limit\<close> and
  \<open>update_plan_limit\<close>.  Each call opens a connection, executes one statement and commits
  inside \<open>try: ... except sqlite3.Error\<close>.  Whether and where SQLite raises is an input of
  the call (\<open>None\<close>: no error); the text carried is the message of the exception.  A
  statement that raised leaves the table as it was.  \<open>executes\<close> counts the statements
  sent to SQLite, \<open>db_log\<close> holds the \<open>logger.error\<close> messages.
\<close>

datatype sqlite_fault = AtConnect string | AtExecute string | AtCommit string

fun fault_message :: "sqlite_fault \<Rightarrow> string" where
  "fault_message (AtConnect e) = e"
| "fault_message (AtExecute e) = e"
| "fault_message (AtCommit e) = e"

fun statements_sent :: "sqlite_fault option \<Rightarrow> nat" where
  "statements_sent (Some (AtConnect e)) = 0"
| "statements_sent _ = 1"

record plan_row =
  pl_token_limit :: "int option"
  pl_message_limit :: "int option"
  pl_last_updated :: string

record database =
  plan_limits :: "string \<rightharpoonup> plan_row"
  db_log :: "string list"
  executes :: nat

text \<open>The dictionary \<open>get_plan_limit\<close> returns: the two columns the monitor reads.\<close>

record plan_dict =
  token_limit :: "int option"
  message_limit :: "int option"

definition update_plan_limit ::
  "sqlite_fault option \<Rightarrow> string \<Rightarrow> string \<Rightarrow> int option \<Rightarrow> int option \<Rightarrow> database
     \<Rightarrow> (error + unit) \<times> database" where
  "update_plan_limit fault now plan_name tok_limit msg_limit db =
     (case fault of
        Some f \<Rightarrow>
          (Inr (), db\<lparr>executes := executes db + statements_sent fault,
                      db_log := db_log db @
                        [''Failed to update plan limit for '' @ plan_name @ '': '' @ fault_message f]\<rparr>)
      | None \<Rightarrow>
          (Inr (), db\<lparr>executes := executes db + 1,
                      plan_limits := (plan_limits db)(plan_name \<mapsto>
                        \<lparr>pl_token_limit = tok_limit, pl_message_limit = msg_limit, pl_last_updated = now\<rparr>)\<rparr>))"

definition get_plan_limit ::
  "sqlite_fault option \<Rightarrow> string \<Rightarrow> database \<Rightarrow> plan_dict option \<times> database" where
  "get_plan_limit fault plan_name db =
     (case fault of
        Some f \<Rightarrow>
          (None, db\<lparr>executes := executes db + statements_sent fault,
                     db_log := db_log db @
                       [''Failed to retrieve plan limit for '' @ plan_name @ '': '' @ fault_message f]\<rparr>)
      | None \<Rightarrow>
          (map_option (\<lambda>row. \<lparr>token_limit = pl_token_limit row, message_limit = pl_message_limit row\<rparr>)
             (plan_limits db plan_name),
           db\<lparr>executes := executes db + 1\<rparr>))"

section \<open>The Learning Updater of \<open>EnhancedProxyMonitor\<close>\<close>

record monitor =
  db_manager :: database
  learned_limits :: "string \<rightharpoonup> plan_dict"
  mon_log :: "string list"

definition determine_plan_type :: "metrics \<Rightarrow> string" where
  "determine_plan_type ms =
     (let peak_tokens = m_peak_token_usage ms in
      if peak_tokens > 150000 then ''max20''
      else if peak_tokens > 60000 then ''max5''
      else if peak_tokens > 15000 then ''pro''
      else ''custom'')"

text \<open>\<open>int(x)\<close> on a float: truncation toward zero.\<close>

definition py_trunc :: "rat \<Rightarrow> int" where
  "py_trunc x = (if 0 \<le> x then \<lfloor>x\<rfloor> else \<lceil>x\<rceil>)"

text \<open>\<open>confidence = min(session_metrics.get('elapsed_time', 0) / 3600, 1.0)\<close> and
  \<open>new_value = int(existing_value * (1 - confidence) + observed_value * confidence)\<close>.\<close>

definition confidence :: "rat \<Rightarrow> rat" where
  "confidence elapsed_time = min (elapsed_time / 3600) 1"

definition new_value :: "int \<Rightarrow> int \<Rightarrow> rat \<Rightarrow> int" where
  "new_value existing_value observed_value elapsed_time =
     py_trunc (of_int existing_value * (1 - confidence elapsed_time)
               + of_int observed_value * confidence elapsed_time)"

text \<open>\<open>existing_limits.get(f'{limit_type}_limit', observed_value)\<close>, with
  \<open>existing_limits = get_plan_limit(plan_type) or {}\<close>: a stored NULL comes back as \<open>None\<close>.\<close>

definition existing_value_of :: "plan_dict option \<Rightarrow> string \<Rightarrow> int \<Rightarrow> int option" where
  "existing_value_of existing_limits limit_type observed_value =
     (case existing_limits of
        None \<Rightarrow> Some observed_value
      | Some d \<Rightarrow>
          if limit_type = ''token'' then token_limit d
          else if limit_type = ''message'' then message_limit d
          else Some observed_value)"

definition store_learned_limit ::
  "sqlite_fault option \<Rightarrow> sqlite_fault option \<Rightarrow> string \<Rightarrow> string \<Rightarrow> string \<Rightarrow> int \<Rightarrow> metrics
     \<Rightarrow> monitor \<Rightarrow> (error + unit) \<times> monitor" where
  "store_learned_limit f_get f_upd now plan_type limit_type observed_value session_metrics mon =
     (let (existing_limits, db1) = get_plan_limit f_get plan_type (db_manager mon) in
      case existing_value_of existing_limits limit_type observed_value of
        None \<Rightarrow> (Inl TypeError, mon\<lparr>db_manager := db1\<rparr>)
      | Some existing_value \<Rightarrow>
          (let nv = new_value existing_value observed_value (m_elapsed_time session_metrics);
               (r, db2) =
                 (if limit_type = ''token''
                  then update_plan_limit f_upd now plan_type (Some nv)
                         (case existing_limits of None \<Rightarrow> Some 250 | Some d \<Rightarrow> message_limit d) db1
                  else update_plan_limit f_upd now plan_type
                         (case existing_limits of None \<Rightarrow> Some 19000 | Some d \<Rightarrow> token_limit d)
                         (Some nv) db1)
           in (r, mon\<lparr>db_manager := db2,
                       mon_log := mon_log mon @
                         [''Updated learned '' @ limit_type @ '' limit for '' @ plan_type @ '': ''
                            @ str_int nv]\<rparr>)))"

text \<open>\<open>_update_intelligent_limits\<close>: the whole body is inside \<open>try: ... except Exception\<close>,
  so an exception of \<open>_store_learned_limit\<close> is logged (the log entry here leaves out
  the exception's own text) and the call returns.  A \<open>limit_value\<close> of \<open>None\<close> or 0 is
  falsy and stores nothing.\<close>

definition update_intelligent_limits ::
  "sqlite_fault option \<Rightarrow> sqlite_fault option \<Rightarrow> string \<Rightarrow> rat \<Rightarrow> session_metrics
     \<Rightarrow> rate_limit_info \<Rightarrow> monitor \<Rightarrow> monitor" where
  "update_intelligent_limits f_get f_upd now clock session info mon =
     (let current_metrics = get_current_metrics session clock;
          plan_type = determine_plan_type current_metrics;
          limit_type = (if rtype info = ''reached'' \<or> rtype info = ''approaching'' then Some ''token''
                        else if rtype info = ''message_limit'' then Some ''message'' else None)
      in case (limit_type, limit_value info) of
           (Some lt, Some v) \<Rightarrow>
             if v = 0 then mon
             else (case store_learned_limit f_get f_upd now plan_type lt v current_metrics mon of
                     (Inl e, mon') \<Rightarrow>
                       mon'\<lparr>mon_log := mon_log mon' @ [''Error updating intelligent limits'']\<rparr>
                   | (Inr u, mon') \<Rightarrow> mon')
         | _ \<Rightarrow> mon)"


text \<open>The row of \<open>plan_limits\<close> for a plan after a call of \<open>store_learned_limit\<close>.\<close>

definition stored :: "(error + unit) \<times> monitor \<Rightarrow> string \<Rightarrow> plan_row option" where
  "stored res plan_type = plan_limits (db_manager (snd res)) plan_type"

text \<open>A monitor whose database holds one learned row, and the metrics of a session with a
  given elapsed time, for the examples below.\<close>

definition example_monitor :: monitor where
  "example_monitor =
     \<lparr>db_manager = \<lparr>plan_limits = [''pro'' \<mapsto> \<lparr>pl_token_limit = Some 20000,
                        pl_message_limit = Some 250, pl_last_updated = ''2025-01-26 18:00:00''\<rparr>],
                    db_log = [], executes = 0\<rparr>,
      learned_limits = Map.empty, mon_log = []\<rparr>"

definition example_metrics :: "rat \<Rightarrow> metrics" where
  "example_metrics elapsed =
     \<lparr>m_session_id = ''s'', m_project_path = ''/p'', m_elapsed_time = elapsed,
      m_total_tokens = 0, m_peak_token_usage = 20000, m_message_count = 0,
      m_peak_message_count = 0, m_rate_limit_events = 1, m_cost_estimate = 0\<rparr>"

section \<open>\<open>SessionContext\<close> and its isolation key\<close>

text \<open>
  The dataclass of \<open>SessionDetector.py\<close>.  Its fields \<open>session_id\<close> and \<open>start_time\<close> carry
  the prefix \<open>ctx_\<close> here; the two \<open>datetime\<close> fields are clock readings.
\<close>

record session_context =
  ctx_session_id :: string
  terminal_id :: string
  process_id :: int
  parent_process_id :: int
  terminal_device :: string
  ssh_connection :: "string option"
  local_ip :: string
  remote_ip :: "string option"
  user :: string
  hostname :: string
  working_directory :: string
  environment_vars :: "(string \<times> string) list"
  ctx_start_time :: rat
  last_activity :: rat
  session_type :: string
  isolation_key :: string

text \<open>\<open>sep.join(parts)\<close>.\<close>

fun join :: "string \<Rightarrow> string list \<Rightarrow> string" where
  "join sep [] = []"
| "join sep [x] = x"
| "join sep (x # y # ys) = x @ sep @ join sep (y # ys)"

text \<open>\<open>self.ssh_connection or "local"\<close>: \<open>None\<close> and the empty string are falsy.\<close>

definition ssh_component :: "session_context \<Rightarrow> string" where
  "ssh_component c =
     (case ssh_connection c of
        None \<Rightarrow> ''local''
      | Some s \<Rightarrow> if s = [] then ''local'' else s)"

definition components :: "session_context \<Rightarrow> string list" where
  "components c =
     [terminal_device c, ssh_component c, user c, hostname c, str_int (process_id c)]"

definition generate_isolation_key :: "session_context \<Rightarrow> string" where
  "generate_isolation_key c = join '':'' (components c)"

definition post_init :: "session_context \<Rightarrow> session_context" where
  "post_init c = (if isolation_key c = [] then c\<lparr>isolation_key := generate_isolation_key c\<rparr> else c)"

definition colon_free :: "string \<Rightarrow> bool" where
  "colon_free s = list_all (\<lambda>ch. ch \<noteq> CHR '':'') s"

text \<open>A context as \<open>DetectCurrentSession\<close> builds it, for given terminal device, SSH
  connection and user; the other fields are fixed.\<close>

definition example_context :: "string \<Rightarrow> string option \<Rightarrow> string \<Rightarrow> session_context" where
  "example_context dev ssh usr =
     post_init
       \<lparr>ctx_session_id = ''session_box_4242_1'', terminal_id = ''t'', process_id = 4242,
        parent_process_id = 1, terminal_device = dev, ssh_connection = ssh,
        local_ip = ''127.0.0.1'', remote_ip = None, user = usr, hostname = ''box'',
        working_directory = ''/home/herb'', environment_vars = [], ctx_start_time = 0,
        last_activity = 0, session_type = ''ssh'', isolation_key = []\<rparr>"

section \<open>\<open>EnhancedDatabaseManager\<close>\<close>

text \<open>
  The tables of \<open>_create_enhanced_tables\<close> that take part in a foreign key, and
  \<open>plan_limits\<close>.  A column has the type its declaration names; a column that may be NULL
  is an option.  \<open>session_metrics\<close> and \<open>plan_limits\<close> are maps from their primary key,
  the other tables are lists of rows in insertion order.  The manager has no method that
  inserts into \<open>usage_entries\<close>, and \<open>learning_metrics\<close> references no table: both stay out.

  \<open>_get_connection\<close> executes \<open>PRAGMA foreign_keys = ON\<close> on every connection, so SQLite
  checks the clause \<open>FOREIGN KEY (session_id) REFERENCES session_metrics (session_id)\<close> at
  the end of each statement and raises \<open>IntegrityError\<close>, a \<open>sqlite3.Error\<close>, when a row
  would be left without its parent.  The statement that raised, and with it the whole
  transaction of the \<open>with\<close> block, is rolled back.
\<close>

record session_row =
  sm_project_path :: string
  sm_start_time :: string
  sm_end_time :: "string option"
  sm_total_tokens :: int
  sm_peak_token_usage :: int
  sm_message_count :: int
  sm_peak_message_count :: int
  sm_cost_estimate :: rat
  sm_rate_limit_events_count :: int
  sm_status :: string
  sm_metadata :: string

record event_row =
  ev_timestamp :: string
  ev_event_type :: string
  ev_session_id :: string
  ev_elapsed_time :: rat
  ev_limit_value :: "int option"
  ev_raw_message :: "string option"
  ev_pattern_matched :: "string option"
  ev_project_path :: "string option"
  ev_confidence_score :: rat

record terminal_row =
  ts_terminal_id :: string
  ts_project_path :: string
  ts_session_id :: string
  ts_start_time :: string
  ts_last_activity :: string
  ts_process_id :: "int option"

record eplan_row =
  ep_token_limit :: "int option"
  ep_message_limit :: "int option"
  ep_last_updated :: string
  ep_confidence_score :: rat
  ep_sample_size :: int
  ep_variance :: rat

record enhanced_db =
  session_metrics_tbl :: "string \<rightharpoonup> session_row"
  rate_limit_events_tbl :: "event_row list"
  terminal_sessions_tbl :: "terminal_row list"
  plan_limits_tbl :: "string \<rightharpoonup> eplan_row"
  elog :: "string list"
  esent :: nat

definition empty_db :: enhanced_db where
  "empty_db = \<lparr>session_metrics_tbl = Map.empty, rate_limit_events_tbl = [],
     terminal_sessions_tbl = [], plan_limits_tbl = Map.empty, elog = [], esent = 0\<rparr>"

text \<open>The argument dictionaries.  A key read with \<open>d[k]\<close> is an option: \<open>None\<close> when the
  dictionary lacks the key, which raises \<open>KeyError\<close>.  A key read with \<open>d.get(k)\<close> is an
  option too: \<open>None\<close> when absent, which stores NULL or the default.\<close>

record event_data =
  ed_event_type :: "string option"
  ed_session_id :: "string option"
  ed_elapsed_time :: "rat option"
  ed_limit_value :: "int option"
  ed_raw_message :: "string option"
  ed_pattern_matched :: "string option"
  ed_project_path :: "string option"
  ed_confidence_score :: "rat option"

record session_data =
  sd_session_id :: "string option"
  sd_project_path :: "string option"
  sd_start_time :: "string option"
  sd_end_time :: "string option"
  sd_total_tokens :: "int option"
  sd_peak_token_usage :: "int option"
  sd_message_count :: "int option"
  sd_peak_message_count :: "int option"
  sd_cost_estimate :: "rat option"
  sd_rate_limit_events_count :: "int option"
  sd_status :: "string option"
  sd_metadata :: "string option"

record terminal_data =
  td_terminal_id :: "string option"
  td_project_path :: "string option"
  td_session_id :: "string option"
  td_start_time :: "string option"
  td_process_id :: "int option"

record plan_data =
  pd_plan_name :: "string option"
  pd_token_limit :: "int option option"
  pd_message_limit :: "int option option"
  pd_confidence_score :: "rat option"
  pd_sample_size :: "int option"
  pd_variance :: "rat option"

definition get_or :: "'a option \<Rightarrow> 'a \<Rightarrow> 'a" where
  "get_or v d = (case v of None \<Rightarrow> d | Some x \<Rightarrow> x)"

text \<open>The \<open>except sqlite3.Error\<close> branch: the message is logged, the tables stay.\<close>

definition log_failure :: "string \<Rightarrow> string \<Rightarrow> nat \<Rightarrow> enhanced_db \<Rightarrow> (error + unit) \<times> enhanced_db" where
  "log_failure what e sent db =
     (Inr (), db\<lparr>elog := elog db @ [what @ '': '' @ e], esent := esent db + sent\<rparr>)"

definition fk_failed :: string where
  "fk_failed = ''FOREIGN KEY constraint failed''"

definition add_enhanced_rate_limit_event ::
  "sqlite_fault option \<Rightarrow> string \<Rightarrow> event_data \<Rightarrow> enhanced_db \<Rightarrow> (error + unit) \<times> enhanced_db" where
  "add_enhanced_rate_limit_event fault now ed db =
     (case fault of
        Some (AtConnect e) \<Rightarrow> log_failure ''Failed to add enhanced rate limit event'' e 0 db
      | _ \<Rightarrow>
     (case ed_event_type ed of None \<Rightarrow> (Inl (KeyError ''event_type''), db) | Some ty \<Rightarrow>
     (case ed_session_id ed of None \<Rightarrow> (Inl (KeyError ''session_id''), db) | Some sid \<Rightarrow>
     (case ed_elapsed_time ed of None \<Rightarrow> (Inl (KeyError ''elapsed_time''), db) | Some el \<Rightarrow>
     (case fault of
        Some f \<Rightarrow> log_failure ''Failed to add enhanced rate limit event'' (fault_message f) 1 db
      | None \<Rightarrow>
          if session_metrics_tbl db sid = None
          then log_failure ''Failed to add enhanced rate limit event'' fk_failed 1 db
          else (Inr (), db\<lparr>esent := esent db + 1,
                  rate_limit_events_tbl := rate_limit_events_tbl db @
                    [\<lparr>ev_timestamp = now, ev_event_type = ty, ev_session_id = sid,
                      ev_elapsed_time = el, ev_limit_value = ed_limit_value ed,
                      ev_raw_message = ed_raw_message ed,
                      ev_pattern_matched = ed_pattern_matched ed,
                      ev_project_path = ed_project_path ed,
                      ev_confidence_score = get_or (ed_confidence_score ed) 1\<rparr>]\<rparr>))))))"

text \<open>\<open>INSERT OR REPLACE INTO session_metrics\<close>: the row of the key is replaced within one
  statement, so rows that reference the key keep a parent.  \<open>sd_metadata\<close> is the text
  \<open>json.dumps\<close> gives for the metadata.\<close>

definition create_or_update_session_metrics ::
  "sqlite_fault option \<Rightarrow> string \<Rightarrow> session_data \<Rightarrow> enhanced_db \<Rightarrow> (error + unit) \<times> enhanced_db" where
  "create_or_update_session_metrics fault now sd db =
     (case fault of
        Some (AtConnect e) \<Rightarrow> log_failure ''Failed to update session metrics'' e 0 db
      | _ \<Rightarrow>
     (case sd_session_id sd of None \<Rightarrow> (Inl (KeyError ''session_id''), db) | Some sid \<Rightarrow>
     (case sd_project_path sd of None \<Rightarrow> (Inl (KeyError ''project_path''), db) | Some path \<Rightarrow>
     (case fault of
        Some f \<Rightarrow> log_failure ''Failed to update session metrics'' (fault_message f) 1 db
      | None \<Rightarrow>
          (Inr (), db\<lparr>esent := esent db + 1,
             session_metrics_tbl := (session_metrics_tbl db)(sid \<mapsto>
               \<lparr>sm_project_path = path, sm_start_time = get_or (sd_start_time sd) now,
                sm_end_time = sd_end_time sd, sm_total_tokens = get_or (sd_total_tokens sd) 0,
                sm_peak_token_usage = get_or (sd_peak_token_usage sd) 0,
                sm_message_count = get_or (sd_message_count sd) 0,
                sm_peak_message_count = get_or (sd_peak_message_count sd) 0,
                sm_cost_estimate = get_or (sd_cost_estimate sd) 0,
                sm_rate_limit_events_count = get_or (sd_rate_limit_events_count sd) 0,
                sm_status = get_or (sd_status sd) ''active'',
                sm_metadata = get_or (sd_metadata sd) ''{}''\<rparr>)\<rparr>)))))"

definition register_terminal_session ::
  "sqlite_fault option \<Rightarrow> string \<Rightarrow> terminal_data \<Rightarrow> enhanced_db \<Rightarrow> (error + unit) \<times> enhanced_db" where
  "register_terminal_session fault now td db =
     (case fault of
        Some (AtConnect e) \<Rightarrow> log_failure ''Failed to register terminal session'' e 0 db
      | _ \<Rightarrow>
     (case td_terminal_id td of None \<Rightarrow> (Inl (KeyError ''terminal_id''), db) | Some tid \<Rightarrow>
     (case td_project_path td of None \<Rightarrow> (Inl (KeyError ''project_path''), db) | Some path \<Rightarrow>
     (case td_session_id td of None \<Rightarrow> (Inl (KeyError ''session_id''), db) | Some sid \<Rightarrow>
     (case fault of
        Some f \<Rightarrow> log_failure ''Failed to register terminal session'' (fault_message f) 1 db
      | None \<Rightarrow>
          if session_metrics_tbl db sid = None
          then log_failure ''Failed to register terminal session'' fk_failed 1 db
          else (Inr (), db\<lparr>esent := esent db + 1,
                  terminal_sessions_tbl := terminal_sessions_tbl db @
                    [\<lparr>ts_terminal_id = tid, ts_project_path = path, ts_session_id = sid,
                      ts_start_time = get_or (td_start_time td) now, ts_last_activity = now,
                      ts_process_id = td_process_id td\<rparr>]\<rparr>))))))"

definition update_enhanced_plan_limit ::
  "sqlite_fault option \<Rightarrow> string \<Rightarrow> plan_data \<Rightarrow> enhanced_db \<Rightarrow> (error + unit) \<times> enhanced_db" where
  "update_enhanced_plan_limit fault now pd db =
     (case fault of
        Some (AtConnect e) \<Rightarrow> log_failure ''Failed to update enhanced plan limit'' e 0 db
      | _ \<Rightarrow>
     (case pd_plan_name pd of None \<Rightarrow> (Inl (KeyError ''plan_name''), db) | Some name \<Rightarrow>
     (case pd_token_limit pd of None \<Rightarrow> (Inl (KeyError ''token_limit''), db) | Some tok \<Rightarrow>
     (case pd_message_limit pd of None \<Rightarrow> (Inl (KeyError ''message_limit''), db) | Some msg \<Rightarrow>
     (case fault of
        Some f \<Rightarrow> log_failure ''Failed to update enhanced plan limit'' (fault_message f) 1 db
      | None \<Rightarrow>
          (Inr (), db\<lparr>esent := esent db + 1,
             plan_limits_tbl := (plan_limits_tbl db)(name \<mapsto>
               \<lparr>ep_token_limit = tok, ep_message_limit = msg, ep_last_updated = now,
                ep_confidence_score = get_or (pd_confidence_score pd) 1,
                ep_sample_size = get_or (pd_sample_size pd) 1,
                ep_variance = get_or (pd_variance pd) 0\<rparr>)\<rparr>))))))"

text \<open>SQLite compares TEXT values byte by byte (collation BINARY); a proper prefix is
  smaller.\<close>

fun text_less :: "string \<Rightarrow> string \<Rightarrow> bool" where
  "text_less [] [] = False"
| "text_less [] (y # ys) = True"
| "text_less (x # xs) [] = False"
| "text_less (x # xs) (y # ys) = (code x < code y \<or> (code x = code y \<and> text_less xs ys))"

text \<open>\<open>cleanup_old_data\<close> runs four DELETE statements in one transaction; \<open>cutoff\<close> is the
  ISO text of the clock minus \<open>days_to_keep\<close>.  A session row is deleted when its status is
  \<open>completed\<close> and its \<open>end_time\<close> is a text below the cutoff.  That DELETE is the third
  statement: it raises when an event that survived the first statement, or any terminal
  session (they are cleaned by the fourth), still references a deleted row, and the
  transaction is rolled back.  An injected fault at execute is taken at the first
  statement, one at commit after all four.\<close>

definition expired :: "string \<Rightarrow> session_row \<Rightarrow> bool" where
  "expired cutoff row =
     (sm_status row = ''completed'' \<and>
      (case sm_end_time row of None \<Rightarrow> False | Some t \<Rightarrow> text_less t cutoff))"

definition doomed :: "string \<Rightarrow> enhanced_db \<Rightarrow> string \<Rightarrow> bool" where
  "doomed cutoff db sid =
     (case session_metrics_tbl db sid of None \<Rightarrow> False | Some row \<Rightarrow> expired cutoff row)"

fun cleanup_sent :: "sqlite_fault \<Rightarrow> nat" where
  "cleanup_sent (AtConnect e) = 0"
| "cleanup_sent (AtExecute e) = 1"
| "cleanup_sent (AtCommit e) = 4"

definition cleanup_old_data ::
  "sqlite_fault option \<Rightarrow> string \<Rightarrow> enhanced_db \<Rightarrow> (error + unit) \<times> enhanced_db" where
  "cleanup_old_data fault cutoff db =
     (case fault of
        Some f \<Rightarrow> log_failure ''Failed to cleanup old data'' (fault_message f) (cleanup_sent f) db
      | None \<Rightarrow>
          (let events' = filter (\<lambda>r. \<not> text_less (ev_timestamp r) cutoff) (rate_limit_events_tbl db)
           in if list_ex (\<lambda>r. doomed cutoff db (ev_session_id r)) events'
                 \<or> list_ex (\<lambda>r. doomed cutoff db (ts_session_id r)) (terminal_sessions_tbl db)
              then log_failure ''Failed to cleanup old data'' fk_failed 3 db
              else (Inr (), db\<lparr>esent := esent db + 4,
                      rate_limit_events_tbl := events',
                      session_metrics_tbl :=
                        (\<lambda>sid. if doomed cutoff db sid then None else session_metrics_tbl db sid),
                      terminal_sessions_tbl :=
                        filter (\<lambda>r. \<not> text_less (ts_last_activity r) cutoff)
                          (terminal_sessions_tbl db)\<rparr>)))"

text \<open>The calls that write to the three tables, and a run of calls on a database.  A call
  that raised \<open>KeyError\<close> has changed nothing, and the run goes on.\<close>

datatype db_call =
    AddEvent "sqlite_fault option" string event_data
  | UpsertSession "sqlite_fault option" string session_data
  | RegisterTerminal "sqlite_fault option" string terminal_data
  | Cleanup "sqlite_fault option" string
  | UpdatePlan "sqlite_fault option" string plan_data

fun call :: "db_call \<Rightarrow> enhanced_db \<Rightarrow> (error + unit) \<times> enhanced_db" where
  "call (AddEvent f now ed) db = add_enhanced_rate_limit_event f now ed db"
| "call (UpsertSession f now sd) db = create_or_update_session_metrics f now sd db"
| "call (RegisterTerminal f now td) db = register_terminal_session f now td db"
| "call (Cleanup f cutoff) db = cleanup_old_data f cutoff db"
| "call (UpdatePlan f now pd) db = update_enhanced_plan_limit f now pd db"

definition run_calls :: "enhanced_db \<Rightarrow> db_call list \<Rightarrow> enhanced_db" where
  "run_calls db cs = foldl (\<lambda>d c. snd (call c d)) db cs"

text \<open>The foreign keys of \<open>rate_limit_events\<close> and \<open>terminal_sessions\<close>: every row's
  \<open>session_id\<close> is the key of a row of \<open>session_metrics\<close>.\<close>

definition has_session :: "enhanced_db \<Rightarrow> string \<Rightarrow> bool" where
  "has_session db sid = (session_metrics_tbl db sid \<noteq> None)"

definition fk_ok :: "enhanced_db \<Rightarrow> bool" where
  "fk_ok db =
     (list_all (\<lambda>r. has_session db (ev_session_id r)) (rate_limit_events_tbl db)
      \<and> list_all (\<lambda>r. has_session db (ts_session_id r)) (terminal_sessions_tbl db))"

text \<open>An event dictionary with the three required keys, and the session dictionary the
  repository's test uses, for the examples below.\<close>

definition example_event :: "string \<Rightarrow> event_data" where
  "example_event sid =
     \<lparr>ed_event_type = Some ''approaching'', ed_session_id = Some sid,
      ed_elapsed_time = Some 1800, ed_limit_value = Some 19000,
      ed_raw_message = Some ''Rate limit approaching: 19000 tokens'',
      ed_pattern_matched = None, ed_project_path = Some ''/test/project'',
      ed_confidence_score = Some (95 / 100)\<rparr>"

definition example_session :: "string \<Rightarrow> session_data" where
  "example_session sid =
     \<lparr>sd_session_id = Some sid, sd_project_path = Some ''/test/project'',
      sd_start_time = Some ''2025-01-26T18:00:00Z'', sd_end_time = None,
      sd_total_tokens = Some 15000, sd_peak_token_usage = Some 5000,
      sd_message_count = Some 45, sd_peak_message_count = Some 45,
      sd_cost_estimate = Some (25 / 2), sd_rate_limit_events_count = Some 1,
      sd_status = Some ''active'', sd_metadata = Some ''{}''\<rparr>"

definition example_plan :: plan_data where
  "example_plan =
     \<lparr>pd_plan_name = Some ''pro'', pd_token_limit = Some (Some 18500),
      pd_message_limit = Some (Some 240), pd_confidence_score = Some (85 / 100),
      pd_sample_size = Some 10, pd_variance = Some 250\<rparr>"

section \<open>Properties of the pattern matcher\<close>

lemma gfree_Cons [simp]: "gfree (i # p) = (i \<noteq> GOpen \<and> i \<noteq> GClose \<and> gfree p)"
  by (simp add: gfree_def)

lemma gfree_Nil [simp]: "gfree []"
  by (simp add: gfree_def)

lemma rmatch_gfree: "gfree p \<Longrightarrow> rmatch p s g cap = Some m \<Longrightarrow> m = cap"
  by (induction p s g cap rule: rmatch.induct) (auto split: if_splits option.splits)

lemma rmatch_star_digits:
  "gfree post \<Longrightarrow> list_all is_decimal d \<Longrightarrow>
   rmatch (StarG Digit # GClose # post) s (Some (d @ s)) cap = Some m \<Longrightarrow>
   \<exists>d'. m = Some (d @ d') \<and> list_all is_decimal d'"
proof (induction s arbitrary: d)
  case Nil
  then show ?case by (auto dest: rmatch_gfree)
next
  case (Cons x xs)
  show ?case
  proof (cases "is_decimal x \<and> rmatch (StarG Digit # GClose # post) xs (Some (d @ x # xs)) cap \<noteq> None")
    case True
    then have r: "rmatch (StarG Digit # GClose # post) xs (Some ((d @ [x]) @ xs)) cap = Some m"
      using Cons.prems(3) by (auto split: option.splits)
    have "list_all is_decimal (d @ [x])" using True Cons.prems(2) by simp
    from Cons.IH [OF Cons.prems(1) this r] obtain d' where
      "m = Some ((d @ [x]) @ d')" "list_all is_decimal d'" by blast
    then show ?thesis using True by (intro exI [of _ "x # d'"]) simp
  next
    case False
    then have "rmatch post (x # xs) (Some (d @ x # xs)) (Some d) = Some m"
      using Cons.prems(3) by (auto split: if_splits option.splits)
    then have "m = Some d" using Cons.prems(1) by (auto dest: rmatch_gfree)
    then show ?thesis by simp
  qed
qed

lemma rmatch_digits_group:
  "has_digits_group p \<Longrightarrow> rmatch p s g cap = Some m \<Longrightarrow>
   \<exists>d. m = Some d \<and> d \<noteq> [] \<and> list_all is_decimal d"
proof (induction p s g cap rule: rmatch.induct)
  case (12 r s g cap)
  then obtain post where r: "r = PlusG Digit # GClose # post" and post: "gfree post"
    by (auto split: list.splits item.splits cls.splits)
  from 12(3) r obtain x xs where s: "s = x # xs" and x: "is_decimal x"
    and m: "rmatch (StarG Digit # GClose # post) xs (Some ([x] @ xs)) cap = Some m"
    by (cases s) (auto split: if_splits)
  have "list_all is_decimal [x]" using x by simp
  from rmatch_star_digits [OF post this m] obtain d' where
    "m = Some ([x] @ d')" "list_all is_decimal d'" by blast
  then show ?case using x by (intro exI [of _ "x # d'"]) simp
qed (auto split: if_splits option.splits)

lemma re_search_rmatch: "re_search p s = Some m \<Longrightarrow> \<exists>s'. rmatch p s' None None = Some m"
  by (induction p s rule: re_search.induct) (auto split: option.splits)

lemma first_match_in: "first_match ps s = Some (p, m) \<Longrightarrow> p \<in> set ps \<and> re_search p s = Some m"
  by (induction ps) (auto split: option.splits)

lemma approaching_groups: "list_all has_digits_group APPROACHING_PATTERNS"
  by (simp add: APPROACHING_PATTERNS_def lit_def digits_group_def)

lemma reached_groups: "list_all has_digits_group REACHED_PATTERNS"
  by (simp add: REACHED_PATTERNS_def lit_def digits_group_def)

lemma message_groups: "list_all has_digits_group MESSAGE_LIMIT_PATTERNS"
  by (simp add: MESSAGE_LIMIT_PATTERNS_def lit_def digits_group_def)

lemma rmatch_plus_no_digit:
  "list_all (\<lambda>c. \<not> is_decimal c) s \<Longrightarrow> rmatch (PlusG Digit # r) s g cap = None"
  by (cases s) simp_all

lemma rmatch_no_digit:
  "has_digits_group p \<Longrightarrow> list_all (\<lambda>c. \<not> is_decimal c) s \<Longrightarrow> rmatch p s g cap = None"
  by (induction p s g cap rule: rmatch.induct)
     (auto simp: rmatch_plus_no_digit split: list.splits item.splits cls.splits)

lemma re_search_no_digit:
  "has_digits_group p \<Longrightarrow> list_all (\<lambda>c. \<not> is_decimal c) s \<Longrightarrow> re_search p s = None"
  by (induction p s rule: re_search.induct) (auto simp: rmatch_no_digit)

lemma first_match_no_digit:
  "list_all has_digits_group ps \<Longrightarrow> list_all (\<lambda>c. \<not> is_decimal c) s \<Longrightarrow> first_match ps s = None"
  by (induction ps) (auto simp: re_search_no_digit)



lemma first_match_group:
  assumes "list_all has_digits_group ps" and "first_match ps s = Some pm"
  shows "\<exists>d. snd pm = Some d \<and> d \<noteq> [] \<and> list_all is_decimal d
             \<and> re_search (fst pm) s = Some (Some d)"
proof -
  obtain p m where pm: "pm = (p, m)" by (cases pm)
  from first_match_in assms(2) pm have p: "p \<in> set ps" and r: "re_search p s = Some m" by auto
  from p assms(1) have "has_digits_group p" by (simp add: list_all_iff)
  moreover from re_search_rmatch [OF r] obtain s' where "rmatch p s' None None = Some m" ..
  ultimately obtain d where "m = Some d" "d \<noteq> []" "list_all is_decimal d"
    using rmatch_digits_group by blast
  then show ?thesis using pm r by simp
qed

lemma group_value_digits:
  "d \<noteq> [] \<Longrightarrow> list_all is_decimal d \<Longrightarrow> group_value (Some d) = Inr (Some (decimal d))"
  by (simp add: group_value_def isdigit_def py_int_def isdigit_char_def list_all_iff)

lemma make_info_group:
  assumes "list_all has_digits_group ps" and "first_match ps s = Some pm"
  shows "\<exists>d. re_search (fst pm) s = Some (Some d) \<and> d \<noteq> [] \<and> list_all is_decimal d \<and>
     make_info ty text pm = Inr (Some \<lparr>rtype = ty, limit_value = Some (decimal d),
        raw_text = strip text, pattern_matched = fst pm\<rparr>)"
proof -
  from first_match_group [OF assms] obtain d where
    d: "snd pm = Some d" "d \<noteq> []" "list_all is_decimal d" "re_search (fst pm) s = Some (Some d)"
    by blast
  then show ?thesis by (simp add: make_info_def group_value_digits)
qed



subsection \<open>Order of the three lists\<close>










subsection \<open>The reported limit value\<close>

lemma extract_Some_cases:
  assumes "extract_rate_limit_info line = Inr (Some r)"
  shows "\<exists>ps ty pm. list_all has_digits_group ps \<and> set ps \<subseteq> set (APPROACHING_PATTERNS @ REACHED_PATTERNS @ MESSAGE_LIMIT_PATTERNS)
           \<and> first_match ps (lower line) = Some pm \<and> make_info ty line pm = Inr (Some r)"
proof (cases "first_match APPROACHING_PATTERNS (lower line)")
  case (Some pm)
  then have "make_info ''approaching'' line pm = Inr (Some r)"
    using assms by (simp add: extract_rate_limit_info_def)
  with Some approaching_groups show ?thesis by (intro exI [of _ APPROACHING_PATTERNS]) auto
next
  case a: None
  show ?thesis
  proof (cases "first_match REACHED_PATTERNS (lower line)")
    case (Some pm)
    then have "make_info ''reached'' line pm = Inr (Some r)"
      using assms a by (simp add: extract_rate_limit_info_def)
    with Some reached_groups show ?thesis by (intro exI [of _ REACHED_PATTERNS]) auto
  next
    case b: None
    show ?thesis
    proof (cases "first_match MESSAGE_LIMIT_PATTERNS (lower line)")
      case (Some pm)
      then have "make_info ''message_limit'' line pm = Inr (Some r)"
        using assms a b by (simp add: extract_rate_limit_info_def)
      with Some message_groups show ?thesis by (intro exI [of _ MESSAGE_LIMIT_PATTERNS]) auto
    next
      case None
      then show ?thesis using assms a b by (simp add: extract_rate_limit_info_def)
    qed
  qed
qed

lemma extract_limit_value:
  assumes "extract_rate_limit_info line = Inr (Some r)"
  shows "\<exists>d. re_search (pattern_matched r) (lower line) = Some (Some d) \<and> d \<noteq> []
             \<and> list_all is_decimal d \<and> limit_value r = Some (decimal d)
             \<and> pattern_matched r \<in> set (APPROACHING_PATTERNS @ REACHED_PATTERNS @ MESSAGE_LIMIT_PATTERNS)"
proof -
  from extract_Some_cases [OF assms] obtain ps ty pm where
    ps: "list_all has_digits_group ps"
        "set ps \<subseteq> set (APPROACHING_PATTERNS @ REACHED_PATTERNS @ MESSAGE_LIMIT_PATTERNS)"
    and fm: "first_match ps (lower line) = Some pm" and mk: "make_info ty line pm = Inr (Some r)"
    by blast
  from make_info_group [OF ps(1) fm, of ty line] mk obtain d where
    d: "re_search (fst pm) (lower line) = Some (Some d)" "d \<noteq> []" "list_all is_decimal d"
    and r: "r = \<lparr>rtype = ty, limit_value = Some (decimal d), raw_text = strip line, pattern_matched = fst pm\<rparr>"
    by auto
  from first_match_in [of ps "lower line" "fst pm" "snd pm"] fm have "fst pm \<in> set ps" by simp
  with ps(2) d r show ?thesis by auto
qed

lemma example_reached:
  "extract_rate_limit_info ''RATE LIMIT REACHED|19000'' =
     Inr (Some \<lparr>rtype = ''reached'', limit_value = Some 19000,
                raw_text = ''RATE LIMIT REACHED|19000'', pattern_matched = REACHED_PATTERNS ! 0\<rparr>)"
  by code_simp

lemma example_approaching:
  "extract_rate_limit_info ''Rate limit approaching, 5000 tokens remaining'' =
     Inr (Some \<lparr>rtype = ''approaching'', limit_value = Some 5000,
                raw_text = ''Rate limit approaching, 5000 tokens remaining'',
                pattern_matched = APPROACHING_PATTERNS ! 2\<rparr>)"
  by code_simp

lemma example_none: "extract_rate_limit_info ''No rate limit information here'' = Inr None"
proof -
  have "list_all (\<lambda>c. \<not> is_decimal c) (lower ''No rate limit information here'')"
    by code_simp
  then show ?thesis
    by (simp add: extract_rate_limit_info_def first_match_no_digit
        approaching_groups reached_groups message_groups)
qed

text \<open>
  Claim C3.  Whenever a match is reported, \<open>limit_value\<close> is the decimal value of the text
  captured by group 1 of the reported pattern, a non-empty run of decimal digits.  The
  line \<open>RATE LIMIT REACHED|19000\<close> gives type \<open>reached\<close> and value 19000, the line
  \<open>Rate limit approaching, 5000 tokens remaining\<close> gives type \<open>approaching\<close> and value 5000,
  and \<open>No rate limit information here\<close> gives \<open>None\<close>.
\<close>

theorem limit_value_is_captured_integer:
  "(extract_rate_limit_info line = Inr (Some r) \<longrightarrow>
      (\<exists>d. re_search (pattern_matched r) (lower line) = Some (Some d) \<and> d \<noteq> []
           \<and> list_all is_decimal d \<and> limit_value r = Some (decimal d)
           \<and> pattern_matched r \<in> set (APPROACHING_PATTERNS @ REACHED_PATTERNS @ MESSAGE_LIMIT_PATTERNS)))
   \<and> extract_rate_limit_info ''RATE LIMIT REACHED|19000'' =
       Inr (Some \<lparr>rtype = ''reached'', limit_value = Some 19000,
                  raw_text = ''RATE LIMIT REACHED|19000'', pattern_matched = REACHED_PATTERNS ! 0\<rparr>)
   \<and> extract_rate_limit_info ''Rate limit approaching, 5000 tokens remaining'' =
       Inr (Some \<lparr>rtype = ''approaching'', limit_value = Some 5000,
                  raw_text = ''Rate limit approaching, 5000 tokens remaining'',
                  pattern_matched = APPROACHING_PATTERNS ! 2\<rparr>)
   \<and> extract_rate_limit_info ''No rate limit information here'' = Inr None"
  using extract_limit_value [of line r] example_reached example_approaching example_none
  by blast

theorem limit_value_is_captured_integer_witness:
  "extract_rate_limit_info ''RATE LIMIT REACHED|19000'' =
       Inr (Some \<lparr>rtype = ''reached'', limit_value = Some 19000,
                  raw_text = ''RATE LIMIT REACHED|19000'', pattern_matched = REACHED_PATTERNS ! 0\<rparr>)
   \<and> (\<exists>d. re_search (REACHED_PATTERNS ! 0) (lower ''RATE LIMIT REACHED|19000'') = Some (Some d)
          \<and> d \<noteq> [] \<and> list_all is_decimal d \<and> Some (19000::int) = Some (decimal d))"
proof -
  let ?r = "\<lparr>rtype = ''reached'', limit_value = Some 19000,
              raw_text = ''RATE LIMIT REACHED|19000'', pattern_matched = REACHED_PATTERNS ! 0\<rparr>"
  note t = limit_value_is_captured_integer [of "''RATE LIMIT REACHED|19000''" ?r]
  from t have e: "extract_rate_limit_info ''RATE LIMIT REACHED|19000'' = Inr (Some ?r)" by blast
  with t show ?thesis by auto
qed


section \<open>Properties of \<open>SessionMetrics\<close>\<close>

lemma token_usage_apply:
  "token_usage (apply_mutations s ms) = token_usage s @ tokens_passed ms"
proof (induction ms arbitrary: s)
  case Nil then show ?case by (simp add: apply_mutations_def)
next
  case (Cons m ms)
  have "apply_mutations s (m # ms) = apply_mutations (apply_mutation s m) ms"
    by (simp add: apply_mutations_def)
  with Cons show ?case
    by (cases m) (simp_all add: add_token_usage_def add_message_def add_rate_limit_event_def Let_def)
qed

lemma peak_apply:
  "peak_token_usage (apply_mutations s ms) = Max (insert (peak_token_usage s) (set (tokens_passed ms)))"
proof (induction ms arbitrary: s)
  case Nil then show ?case by (simp add: apply_mutations_def)
next
  case (Cons m ms)
  have step: "apply_mutations s (m # ms) = apply_mutations (apply_mutation s m) ms"
    by (simp add: apply_mutations_def)
  show ?case
  proof (cases m)
    case (AddTokenUsage n)
    have "Max (insert (max (peak_token_usage s) n) (set (tokens_passed ms)))
        = Max (insert (peak_token_usage s) (insert n (set (tokens_passed ms))))"
      by (cases "set (tokens_passed ms) = {}") (auto simp: max.assoc)
    then show ?thesis using Cons AddTokenUsage step by (simp add: add_token_usage_def)
  next
    case AddMessage
    then show ?thesis using Cons step by (simp add: add_message_def Let_def)
  next
    case (AddRateLimitEvent e t1 t2)
    then show ?thesis using Cons step by (simp add: add_rate_limit_event_def)
  qed
qed

lemma message_apply:
  "message_count (apply_mutations s ms) = message_count s + messages_added ms \<and>
   (peak_message_count s = message_count s \<longrightarrow>
      peak_message_count (apply_mutations s ms) = message_count (apply_mutations s ms))"
proof (induction ms arbitrary: s)
  case Nil then show ?case by (simp add: apply_mutations_def)
next
  case (Cons m ms)
  have step: "apply_mutations s (m # ms) = apply_mutations (apply_mutation s m) ms"
    by (simp add: apply_mutations_def)
  show ?case unfolding step using Cons [of "apply_mutation s m"]
    by (cases m) (simp_all add: add_token_usage_def add_message_def add_rate_limit_event_def Let_def)
qed

text \<open>
  Claim C7, as stated, fails: \<open>get_current_metrics\<close> reads the clock, so two calls with no
  mutation in between differ in \<open>elapsed_time\<close> as soon as the clock has advanced.
\<close>

theorem get_current_metrics_clock_counterexample:
  "get_current_metrics (SessionMetrics ''s'' ''/p'' 0) 1
     \<noteq> get_current_metrics (SessionMetrics ''s'' ''/p'' 0) 2"
  by (simp add: get_current_metrics_def SessionMetrics_def)

text \<open>
  Claim C7, amended.  After any sequence of calls on a fresh object, \<open>total_tokens\<close> is the
  sum of the values passed to \<open>add_token_usage\<close>.  \<open>get_current_metrics\<close> is a function of
  the object and the clock reading only: \<open>elapsed_time\<close> is the reading minus \<open>start_time\<close>,
  two calls agree on every other key, and they agree on the whole dictionary exactly when
  the clock reads the same.
\<close>

theorem total_tokens_is_sum_of_usage:
  "m_total_tokens (get_current_metrics (apply_mutations (SessionMetrics sid path t0) ms) now)
     = sum_list (tokens_passed ms)
   \<and> m_elapsed_time (get_current_metrics s t) = t - start_time s
   \<and> (get_current_metrics s t1)\<lparr>m_elapsed_time := e\<rparr> = (get_current_metrics s t2)\<lparr>m_elapsed_time := e\<rparr>
   \<and> (get_current_metrics s t1 = get_current_metrics s t2) = (t1 = t2)"
  by (auto simp add: get_current_metrics_def token_usage_apply SessionMetrics_def)

text \<open>
  Claim C10, as stated, fails for a negative value: the peak starts at 0 and is only ever
  raised, so after \<open>add_token_usage(-5)\<close> it is 0 while the largest value passed is -5.
\<close>

theorem peak_token_usage_negative_counterexample:
  "tokens_passed [AddTokenUsage (- 5)] = [- 5]
   \<and> peak_token_usage (apply_mutations (SessionMetrics ''s'' ''/p'' 0) [AddTokenUsage (- 5)])
       \<noteq> Max (set (tokens_passed [AddTokenUsage (- 5)]))"
  by (simp add: apply_mutations_def add_token_usage_def SessionMetrics_def)

text \<open>
  Claim C10, amended.  After any sequence of calls on a fresh object, \<open>peak_token_usage\<close>
  is the largest of 0 and the single values passed to \<open>add_token_usage\<close> (not of running
  totals), \<open>peak_message_count\<close> equals \<open>message_count\<close>, and \<open>message_count\<close> is the number
  of \<open>add_message\<close> calls.
\<close>

theorem peaks_after_mutations:
  "peak_token_usage (apply_mutations (SessionMetrics sid path t0) ms)
     = Max (insert 0 (set (tokens_passed ms)))
   \<and> peak_message_count (apply_mutations (SessionMetrics sid path t0) ms)
     = message_count (apply_mutations (SessionMetrics sid path t0) ms)
   \<and> message_count (apply_mutations (SessionMetrics sid path t0) ms) = messages_added ms"
  using message_apply [of "SessionMetrics sid path t0" ms]
  by (simp add: peak_apply) (simp add: SessionMetrics_def)

section \<open>Properties of the Learning Updater\<close>















section \<open>Properties of the isolation key\<close>

lemma split_at_first_colon:
  "colon_free a \<Longrightarrow> colon_free a' \<Longrightarrow> a @ CHR '':'' # r = a' @ CHR '':'' # r'
     \<Longrightarrow> a = a' \<and> r = r'"
proof (induction a arbitrary: a')
  case Nil
  then show ?case by (cases a') (auto simp: colon_free_def)
next
  case (Cons x xs)
  then show ?case by (cases a') (auto simp: colon_free_def)
qed

lemma split_at_last_colon:
  assumes "colon_free z" and "colon_free z'" and "r @ CHR '':'' # z = r' @ CHR '':'' # z'"
  shows "r = r' \<and> z = z'"
proof -
  have "rev z @ CHR '':'' # rev r = rev z' @ CHR '':'' # rev r'"
    using arg_cong [OF assms(3), of rev] by simp
  moreover have "colon_free (rev z)" "colon_free (rev z')"
    using assms(1,2) by (simp_all add: colon_free_def)
  ultimately have "rev z = rev z' \<and> rev r = rev r'" by (rule split_at_first_colon [rotated 2])
  then show ?thesis by simp
qed

lemma code_digit_char: "d < 10 \<Longrightarrow> code (digit_char d) = 48 + d"
  by (simp add: code_def digit_char_def)

lemma str_nat_digits: "list_all is_decimal (str_nat n)"
proof (induction n rule: str_nat.induct)
  case (1 n)
  show ?case
  proof (cases "n < 10")
    case True
    then show ?thesis by (subst str_nat.simps) (simp add: is_decimal_def code_digit_char)
  next
    case False
    then have "list_all is_decimal (str_nat (n div 10))" using 1 by simp
    then show ?thesis using False
      by (subst str_nat.simps) (simp add: is_decimal_def code_digit_char)
  qed
qed

lemma str_nat_nonempty: "str_nat n \<noteq> []"
  by (subst str_nat.simps) simp

lemma decimal_acc_snoc:
  "decimal_acc a (xs @ [c]) = 10 * decimal_acc a xs + (int (code c) - 48)"
  by (induction xs arbitrary: a) simp_all

lemma decimal_str_nat: "decimal (str_nat n) = int n"
proof (induction n rule: str_nat.induct)
  case (1 n)
  show ?case
  proof (cases "n < 10")
    case True
    then have "str_nat n = [digit_char n]" by (subst str_nat.simps) simp
    then show ?thesis using True by (simp add: decimal_def code_digit_char)
  next
    case False
    then have ih: "decimal (str_nat (n div 10)) = int (n div 10)" using 1 by simp
    have s: "str_nat n = str_nat (n div 10) @ [digit_char (n mod 10)]"
      using False by (subst str_nat.simps) simp
    have "decimal (str_nat n) = 10 * decimal (str_nat (n div 10)) + int (n mod 10)"
      unfolding s decimal_def decimal_acc_snoc by (simp add: code_digit_char)
    also have "\<dots> = 10 * int (n div 10) + int (n mod 10)" using ih by simp
    also have "\<dots> = int n" by presburger
    finally show ?thesis .
  qed
qed

lemma str_nat_inj: "str_nat m = str_nat n \<Longrightarrow> m = n"
  using decimal_str_nat [of m] decimal_str_nat [of n] by simp

lemma str_nat_no_minus: "str_nat n \<noteq> CHR ''-'' # s"
proof
  assume "str_nat n = CHR ''-'' # s"
  with str_nat_digits [of n] have "is_decimal CHR ''-''" by simp
  then show False by (simp add: is_decimal_def code_def)
qed

lemma str_int_inj:
  assumes "str_int i = str_int j"
  shows "i = j"
proof (cases "i < 0")
  case True
  show ?thesis
  proof (cases "j < 0")
    case j: True
    with True assms have "str_nat (nat (- i)) = str_nat (nat (- j))" by (simp add: str_int_def)
    then have "nat (- i) = nat (- j)" by (rule str_nat_inj)
    with True j show ?thesis by simp
  next
    case False
    with True assms have "str_nat (nat j) = CHR ''-'' # str_nat (nat (- i))"
      by (simp add: str_int_def)
    then show ?thesis using str_nat_no_minus by blast
  qed
next
  case False
  show ?thesis
  proof (cases "j < 0")
    case True
    with False assms have "str_nat (nat i) = CHR ''-'' # str_nat (nat (- j))"
      by (simp add: str_int_def)
    then show ?thesis using str_nat_no_minus by blast
  next
    case j: False
    with False assms have "str_nat (nat i) = str_nat (nat j)" by (simp add: str_int_def)
    then have "nat i = nat j" by (rule str_nat_inj)
    with False j show ?thesis by simp
  qed
qed

lemma colon_not_decimal: "\<not> is_decimal CHR '':''"
  by (simp add: is_decimal_def code_def)

lemma decimal_colon_free: "list_all is_decimal s \<Longrightarrow> colon_free s"
  unfolding colon_free_def using colon_not_decimal by (induction s) auto

lemma str_int_colon_free: "colon_free (str_int i)"
  using decimal_colon_free [OF str_nat_digits] by (simp add: str_int_def colon_free_def)

lemma key_unfold:
  "generate_isolation_key c =
     terminal_device c @ CHR '':'' # (ssh_component c @ CHR '':'' # user c) @ CHR '':'' # hostname c
       @ CHR '':'' # str_int (process_id c)"
  by (simp add: generate_isolation_key_def components_def)

text \<open>
  Claim C9, as stated, fails: the five components are joined with \<open>:\<close> and nothing
  escapes a \<open>:\<close> inside a component, so two contexts that differ in the SSH connection and
  in the user can have the same key.
\<close>

theorem isolation_key_collision_counterexample:
  "generate_isolation_key (example_context ''0'' (Some ''ssh_client:10.0.0.5 50000 22'') ''herb'')
     = generate_isolation_key (example_context ''0'' (Some ''ssh_client'') ''10.0.0.5 50000 22:herb'')
   \<and> isolation_key (example_context ''0'' (Some ''ssh_client:10.0.0.5 50000 22'') ''herb'')
     = isolation_key (example_context ''0'' (Some ''ssh_client'') ''10.0.0.5 50000 22:herb'')
   \<and> ssh_component (example_context ''0'' (Some ''ssh_client:10.0.0.5 50000 22'') ''herb'')
     \<noteq> ssh_component (example_context ''0'' (Some ''ssh_client'') ''10.0.0.5 50000 22:herb'')
   \<and> user (example_context ''0'' (Some ''ssh_client:10.0.0.5 50000 22'') ''herb'')
     \<noteq> user (example_context ''0'' (Some ''ssh_client'') ''10.0.0.5 50000 22:herb'')"
  by (simp add: example_context_def post_init_def generate_isolation_key_def components_def
      ssh_component_def)

text \<open>
  Claim C9, amended.  For two contexts whose terminal device, user and hostname contain no
  \<open>:\<close> (the SSH connection may: \<open>_detect_ssh_connection\<close> always puts one in), the generated
  isolation keys are equal exactly when the five components are equal: terminal device,
  SSH connection or \<open>local\<close>, user, hostname and process id.
\<close>

theorem isolation_key_components:
  assumes "colon_free (terminal_device a)" "colon_free (user a)" "colon_free (hostname a)"
    and "colon_free (terminal_device b)" "colon_free (user b)" "colon_free (hostname b)"
  shows "(generate_isolation_key a = generate_isolation_key b) =
     (terminal_device a = terminal_device b \<and> ssh_component a = ssh_component b
      \<and> user a = user b \<and> hostname a = hostname b \<and> process_id a = process_id b)"
proof
  assume k: "generate_isolation_key a = generate_isolation_key b"
  let ?ra = "ssh_component a @ CHR '':'' # user a @ CHR '':'' # hostname a @ CHR '':'' # str_int (process_id a)"
  let ?rb = "ssh_component b @ CHR '':'' # user b @ CHR '':'' # hostname b @ CHR '':'' # str_int (process_id b)"
  from k have "terminal_device a @ CHR '':'' # ?ra = terminal_device b @ CHR '':'' # ?rb"
    by (simp add: key_unfold)
  from split_at_first_colon [OF assms(1,4) this]
  have td: "terminal_device a = terminal_device b" and r: "?ra = ?rb" by simp_all
  from r have "(ssh_component a @ CHR '':'' # user a @ CHR '':'' # hostname a) @ CHR '':'' # str_int (process_id a)
     = (ssh_component b @ CHR '':'' # user b @ CHR '':'' # hostname b) @ CHR '':'' # str_int (process_id b)"
    by simp
  from split_at_last_colon [OF str_int_colon_free str_int_colon_free this]
  have r2: "ssh_component a @ CHR '':'' # user a @ CHR '':'' # hostname a
           = ssh_component b @ CHR '':'' # user b @ CHR '':'' # hostname b"
    and pid: "str_int (process_id a) = str_int (process_id b)" by simp_all
  from r2 have "(ssh_component a @ CHR '':'' # user a) @ CHR '':'' # hostname a
           = (ssh_component b @ CHR '':'' # user b) @ CHR '':'' # hostname b" by simp
  from split_at_last_colon [OF assms(3,6) this]
  have r3: "ssh_component a @ CHR '':'' # user a = ssh_component b @ CHR '':'' # user b"
    and h: "hostname a = hostname b" by simp_all
  from split_at_last_colon [OF assms(2,5) r3]
  have "ssh_component a = ssh_component b" "user a = user b" by simp_all
  with td h str_int_inj [OF pid]
  show "terminal_device a = terminal_device b \<and> ssh_component a = ssh_component b
      \<and> user a = user b \<and> hostname a = hostname b \<and> process_id a = process_id b" by simp
next
  assume "terminal_device a = terminal_device b \<and> ssh_component a = ssh_component b
      \<and> user a = user b \<and> hostname a = hostname b \<and> process_id a = process_id b"
  then show "generate_isolation_key a = generate_isolation_key b"
    by (simp add: generate_isolation_key_def components_def)
qed


lemma example_context_colon_free:
  "colon_free (terminal_device (example_context ''0'' (Some ''ssh_client:10.0.0.5 50000 22'') ''herb''))
   \<and> colon_free (user (example_context ''0'' (Some ''ssh_client:10.0.0.5 50000 22'') ''herb''))
   \<and> colon_free (hostname (example_context ''0'' (Some ''ssh_client:10.0.0.5 50000 22'') ''herb''))
   \<and> colon_free (terminal_device (example_context ''1'' None ''herb''))
   \<and> colon_free (user (example_context ''1'' None ''herb''))
   \<and> colon_free (hostname (example_context ''1'' None ''herb''))"
  by (simp add: example_context_def post_init_def colon_free_def)

theorem isolation_key_components_witness:
  "colon_free (terminal_device (example_context ''0'' (Some ''ssh_client:10.0.0.5 50000 22'') ''herb''))
   \<and> colon_free (user (example_context ''0'' (Some ''ssh_client:10.0.0.5 50000 22'') ''herb''))
   \<and> colon_free (hostname (example_context ''0'' (Some ''ssh_client:10.0.0.5 50000 22'') ''herb''))
   \<and> colon_free (terminal_device (example_context ''1'' None ''herb''))
   \<and> colon_free (user (example_context ''1'' None ''herb''))
   \<and> colon_free (hostname (example_context ''1'' None ''herb''))
   \<and> generate_isolation_key (example_context ''0'' (Some ''ssh_client:10.0.0.5 50000 22'') ''herb'')
       \<noteq> generate_isolation_key (example_context ''1'' None ''herb'')"
proof -
  let ?a = "example_context ''0'' (Some ''ssh_client:10.0.0.5 50000 22'') ''herb''"
  let ?b = "example_context ''1'' None ''herb''"
  note cf = example_context_colon_free
  have "(generate_isolation_key ?a = generate_isolation_key ?b) =
     (terminal_device ?a = terminal_device ?b \<and> ssh_component ?a = ssh_component ?b
      \<and> user ?a = user ?b \<and> hostname ?a = hostname ?b \<and> process_id ?a = process_id ?b)"
    using cf by (intro isolation_key_components) simp_all
  moreover have "terminal_device ?a \<noteq> terminal_device ?b"
    by (simp add: example_context_def post_init_def)
  ultimately have "generate_isolation_key ?a \<noteq> generate_isolation_key ?b" by simp
  with cf show ?thesis by simp
qed

section \<open>Properties of the enhanced database\<close>

lemma log_failure_tables [simp]:
  "session_metrics_tbl (snd (log_failure w e n db)) = session_metrics_tbl db"
  "rate_limit_events_tbl (snd (log_failure w e n db)) = rate_limit_events_tbl db"
  "terminal_sessions_tbl (snd (log_failure w e n db)) = terminal_sessions_tbl db"
  "plan_limits_tbl (snd (log_failure w e n db)) = plan_limits_tbl db"
  "fst (log_failure w e n db) = Inr ()"
  by (simp_all add: log_failure_def)

lemma fk_ok_log_failure [simp]: "fk_ok (snd (log_failure w e n db)) = fk_ok db"
  by (simp add: fk_ok_def has_session_def)

lemma fk_ok_add_event:
  "fk_ok db \<Longrightarrow> fk_ok (snd (add_enhanced_rate_limit_event f now ed db))"
  by (auto simp: add_enhanced_rate_limit_event_def fk_ok_def has_session_def
      split: option.splits sqlite_fault.splits)

lemma fk_ok_upsert:
  "fk_ok db \<Longrightarrow> fk_ok (snd (create_or_update_session_metrics f now sd db))"
  by (auto simp: create_or_update_session_metrics_def fk_ok_def has_session_def list_all_iff
      split: option.splits sqlite_fault.splits)

lemma fk_ok_register:
  "fk_ok db \<Longrightarrow> fk_ok (snd (register_terminal_session f now td db))"
  by (auto simp: register_terminal_session_def fk_ok_def has_session_def
      split: option.splits sqlite_fault.splits)

lemma fk_ok_update_plan:
  "fk_ok db \<Longrightarrow> fk_ok (snd (update_enhanced_plan_limit f now pd db))"
  by (auto simp: update_enhanced_plan_limit_def fk_ok_def has_session_def
      split: option.splits sqlite_fault.splits)

lemma fk_ok_cleanup:
  assumes "fk_ok db"
  shows "fk_ok (snd (cleanup_old_data f cutoff db))"
proof (cases f)
  case (Some a)
  then show ?thesis using assms by (simp add: cleanup_old_data_def)
next
  case None
  let ?ev = "filter (\<lambda>r. \<not> text_less (ev_timestamp r) cutoff) (rate_limit_events_tbl db)"
  show ?thesis
  proof (cases "list_ex (\<lambda>r. doomed cutoff db (ev_session_id r)) ?ev
                 \<or> list_ex (\<lambda>r. doomed cutoff db (ts_session_id r)) (terminal_sessions_tbl db)")
    case True
    then show ?thesis using assms None by (simp add: cleanup_old_data_def Let_def)
  next
    case False
    then have a: "\<forall>r\<in>set ?ev. \<not> doomed cutoff db (ev_session_id r)"
      and b: "\<forall>r\<in>set (terminal_sessions_tbl db). \<not> doomed cutoff db (ts_session_id r)"
      by (auto simp: list_ex_iff)
    from assms have c: "\<forall>r\<in>set (rate_limit_events_tbl db). session_metrics_tbl db (ev_session_id r) \<noteq> None"
      and d: "\<forall>r\<in>set (terminal_sessions_tbl db). session_metrics_tbl db (ts_session_id r) \<noteq> None"
      by (simp_all add: fk_ok_def has_session_def list_all_iff)
    have r: "snd (cleanup_old_data f cutoff db) =
        db\<lparr>esent := esent db + 4, rate_limit_events_tbl := ?ev,
           session_metrics_tbl := (\<lambda>sid. if doomed cutoff db sid then None else session_metrics_tbl db sid),
           terminal_sessions_tbl := filter (\<lambda>r. \<not> text_less (ts_last_activity r) cutoff)
                          (terminal_sessions_tbl db)\<rparr>"
      using False None by (simp add: cleanup_old_data_def Let_def)
    show ?thesis unfolding r using a b c d
      by (auto simp: fk_ok_def has_session_def list_all_iff)
  qed
qed

lemma fk_ok_call: "fk_ok db \<Longrightarrow> fk_ok (snd (call c db))"
  by (cases c) (simp_all add: fk_ok_add_event fk_ok_upsert fk_ok_register fk_ok_cleanup
      fk_ok_update_plan)

lemma fk_ok_run: "fk_ok db \<Longrightarrow> fk_ok (run_calls db cs)"
proof (induction cs arbitrary: db)
  case Nil
  then show ?case by (simp add: run_calls_def)
next
  case (Cons c cs)
  have "run_calls db (c # cs) = run_calls (snd (call c db)) cs" by (simp add: run_calls_def)
  with Cons fk_ok_call show ?case by simp
qed

lemma fk_ok_empty: "fk_ok empty_db"
  by (simp add: fk_ok_def empty_db_def)

lemma add_event_without_session:
  assumes "session_metrics_tbl db sid = None" and "ed_session_id ed = Some sid"
  shows "rate_limit_events_tbl (snd (add_enhanced_rate_limit_event f now ed db)) = rate_limit_events_tbl db"
    and "session_metrics_tbl (snd (add_enhanced_rate_limit_event f now ed db)) = session_metrics_tbl db"
  using assms
  by (auto simp: add_enhanced_rate_limit_event_def split: option.splits sqlite_fault.splits)

lemma add_event_without_session_logged:
  assumes "session_metrics_tbl db sid = None" and "ed_session_id ed = Some sid"
    and "ed_event_type ed \<noteq> None" and "ed_elapsed_time ed \<noteq> None"
  shows "add_enhanced_rate_limit_event None now ed db =
     (Inr (), db\<lparr>elog := elog db @ [''Failed to add enhanced rate limit event'' @ '': '' @ fk_failed],
                esent := esent db + 1\<rparr>)"
  using assms
  by (auto simp: add_enhanced_rate_limit_event_def log_failure_def split: option.splits)

text \<open>
  Claim C5.  In every database state that the manager's calls reach from the empty
  tables, with any SQLite faults on the way, each row of \<open>rate_limit_events\<close> (and of
  \<open>terminal_sessions\<close>) has a \<open>session_id\<close> that is the key of a row of \<open>session_metrics\<close>,
  and every call keeps this.  Inserting an event whose \<open>session_id\<close> has no session row
  adds no row: SQLite's foreign-key check raises, the error is logged, and the call returns.
\<close>

theorem events_reference_sessions:
  "fk_ok (run_calls empty_db cs)
   \<and> (fk_ok db \<longrightarrow> fk_ok (snd (call c db)))
   \<and> (session_metrics_tbl db sid = None \<and> ed_session_id ed = Some sid \<longrightarrow>
        rate_limit_events_tbl (snd (add_enhanced_rate_limit_event f now ed db))
          = rate_limit_events_tbl db)
   \<and> (session_metrics_tbl db sid = None \<and> ed_session_id ed = Some sid
        \<and> ed_event_type ed \<noteq> None \<and> ed_elapsed_time ed \<noteq> None \<longrightarrow>
        add_enhanced_rate_limit_event None now ed db =
          (Inr (), db\<lparr>elog := elog db @ [''Failed to add enhanced rate limit event: '' @ fk_failed],
                     esent := esent db + 1\<rparr>))"
  using fk_ok_run [OF fk_ok_empty, of cs] fk_ok_call [of db c]
    add_event_without_session(1) [of db sid ed f now]
    add_event_without_session_logged [of db sid ed now]
  by simp

lemma example_run:
  "map ev_session_id (rate_limit_events_tbl (run_calls empty_db
      [UpsertSession None ''2025-01-26T18:00:00'' (example_session ''test_session_001''),
       AddEvent None ''2025-01-26T18:30:00'' (example_event ''test_session_001''),
       AddEvent None ''2025-01-26T18:31:00'' (example_event ''ghost'')]))
     = [''test_session_001'']"
  by (simp add: run_calls_def empty_db_def example_session_def example_event_def
      create_or_update_session_metrics_def add_enhanced_rate_limit_event_def log_failure_def)

theorem events_reference_sessions_witness:
  "session_metrics_tbl empty_db ''ghost'' = None
   \<and> ed_session_id (example_event ''ghost'') = Some ''ghost''
   \<and> rate_limit_events_tbl
        (snd (add_enhanced_rate_limit_event None ''2025-01-26T18:31:00'' (example_event ''ghost'') empty_db))
       = rate_limit_events_tbl empty_db
   \<and> fk_ok (run_calls empty_db
      [UpsertSession None ''2025-01-26T18:00:00'' (example_session ''test_session_001''),
       AddEvent None ''2025-01-26T18:30:00'' (example_event ''test_session_001''),
       AddEvent None ''2025-01-26T18:31:00'' (example_event ''ghost'')])
   \<and> map ev_session_id (rate_limit_events_tbl (run_calls empty_db
      [UpsertSession None ''2025-01-26T18:00:00'' (example_session ''test_session_001''),
       AddEvent None ''2025-01-26T18:30:00'' (example_event ''test_session_001''),
       AddEvent None ''2025-01-26T18:31:00'' (example_event ''ghost'')]))
     = [''test_session_001'']"
proof -
  have h: "session_metrics_tbl empty_db ''ghost'' = None
      \<and> ed_session_id (example_event ''ghost'') = Some ''ghost''"
    by (simp add: empty_db_def example_event_def)
  note t = events_reference_sessions [of
      "[UpsertSession None ''2025-01-26T18:00:00'' (example_session ''test_session_001''),
       AddEvent None ''2025-01-26T18:30:00'' (example_event ''test_session_001''),
       AddEvent None ''2025-01-26T18:31:00'' (example_event ''ghost'')]"
      empty_db _ "''ghost''" "example_event ''ghost''" None "''2025-01-26T18:31:00''"]
  from t have 1: "fk_ok (run_calls empty_db
      [UpsertSession None ''2025-01-26T18:00:00'' (example_session ''test_session_001''),
       AddEvent None ''2025-01-26T18:30:00'' (example_event ''test_session_001''),
       AddEvent None ''2025-01-26T18:31:00'' (example_event ''ghost'')])"
    by (rule conjunct1)
  from t h have 2: "rate_limit_events_tbl
        (snd (add_enhanced_rate_limit_event None ''2025-01-26T18:31:00'' (example_event ''ghost'') empty_db))
       = rate_limit_events_tbl empty_db"
    by blast
  from h 1 2 example_run show ?thesis by simp
qed

section \<open>Database errors during a plan-limit write\<close>

lemma update_plan_limit_fault:
  "update_plan_limit (Some f) now plan tok msg db =
     (Inr (), db\<lparr>executes := executes db + statements_sent (Some f),
                 db_log := db_log db @
                   [''Failed to update plan limit for '' @ plan @ '': '' @ fault_message f]\<rparr>)"
  by (simp add: update_plan_limit_def)

lemma statements_sent_le: "statements_sent fo \<le> 1"
  by (cases fo rule: statements_sent.cases) simp_all

lemma update_enhanced_plan_limit_fault:
  assumes "pd_plan_name pd = Some plan" "pd_token_limit pd = Some tok" "pd_message_limit pd = Some msg"
  shows "update_enhanced_plan_limit (Some f) now pd edb =
     (Inr (), edb\<lparr>elog := elog edb @ [''Failed to update enhanced plan limit: '' @ fault_message f],
                  esent := esent edb + statements_sent (Some f)\<rparr>)"
  using assms by (cases f) (simp_all add: update_enhanced_plan_limit_def log_failure_def)

lemma get_plan_limit_tables:
  "plan_limits (snd (get_plan_limit fg plan db)) = plan_limits db"
  by (cases fg) (simp_all add: get_plan_limit_def)

lemma update_plan_limit_fault_tables:
  "plan_limits (snd (update_plan_limit (Some f) now plan tok msg db)) = plan_limits db"
  "fst (update_plan_limit fo now plan tok msg db) = Inr ()"
  by (cases fo; simp add: update_plan_limit_def)+

lemma store_learned_limit_learned:
  "learned_limits (snd (store_learned_limit fg fu now plan lt obs sm mon)) = learned_limits mon"
  by (simp add: store_learned_limit_def Let_def split: prod.splits option.splits)

lemma store_learned_limit_fault_tables:
  "plan_limits (db_manager (snd (store_learned_limit fg (Some f) now plan lt obs sm mon)))
     = plan_limits (db_manager mon)"
  using get_plan_limit_tables [of fg plan "db_manager mon"]
  by (auto simp: store_learned_limit_def Let_def update_plan_limit_def
      split: prod.splits option.splits)

lemma store_learned_limit_returns:
  "existing_value_of (fst (get_plan_limit fg plan (db_manager mon))) lt obs \<noteq> None \<Longrightarrow>
   fst (store_learned_limit fg fu now plan lt obs sm mon) = Inr ()"
  using update_plan_limit_fault_tables(2)
  by (auto simp: store_learned_limit_def Let_def split: prod.splits option.splits)
     (metis fst_conv)+

lemma update_intelligent_limits_learned:
  "learned_limits (update_intelligent_limits fg fu now clock session info mon) = learned_limits mon"
proof -
  have "\<And>pt lt v cm e mon'. store_learned_limit fg fu now pt lt v cm mon = (e, mon')
      \<Longrightarrow> learned_limits mon' = learned_limits mon"
    using store_learned_limit_learned by (metis snd_conv)
  then show ?thesis
    by (auto simp: update_intelligent_limits_def Let_def split: option.splits prod.splits sum.splits)
qed

text \<open>
  Claim C8.  When SQLite raises during a plan-limit write, at connect, execute or commit,
  \<open>update_plan_limit\<close> and \<open>update_enhanced_plan_limit\<close> return normally: the tables are as
  before, one error message is logged, and at most one statement was sent, so nothing is
  retried.  \<open>_store_learned_limit\<close> then returns normally too, with \<open>learned_limits\<close> and
  the stored plan limits unchanged, and so does \<open>_update_intelligent_limits\<close>.
\<close>

theorem database_error_is_swallowed:
  "update_plan_limit (Some f) now plan tok msg db =
     (Inr (), db\<lparr>executes := executes db + statements_sent (Some f),
                 db_log := db_log db @
                   [''Failed to update plan limit for '' @ plan @ '': '' @ fault_message f]\<rparr>)
   \<and> statements_sent (Some f) \<le> 1
   \<and> (pd_plan_name pd = Some plan \<and> pd_token_limit pd = Some tok' \<and> pd_message_limit pd = Some msg' \<longrightarrow>
       update_enhanced_plan_limit (Some f) now pd edb =
         (Inr (), edb\<lparr>elog := elog edb @ [''Failed to update enhanced plan limit: '' @ fault_message f],
                      esent := esent edb + statements_sent (Some f)\<rparr>))
   \<and> learned_limits (snd (store_learned_limit fg (Some f) now plan lt obs sm mon)) = learned_limits mon
   \<and> plan_limits (db_manager (snd (store_learned_limit fg (Some f) now plan lt obs sm mon)))
       = plan_limits (db_manager mon)
   \<and> (existing_value_of (fst (get_plan_limit fg plan (db_manager mon))) lt obs \<noteq> None \<longrightarrow>
       fst (store_learned_limit fg (Some f) now plan lt obs sm mon) = Inr ())
   \<and> learned_limits (update_intelligent_limits fg (Some f) now clock session info mon)
       = learned_limits mon"
  using update_plan_limit_fault [of f now plan tok msg db] statements_sent_le [of "Some f"]
    update_enhanced_plan_limit_fault [of pd plan tok' msg' f now edb]
    store_learned_limit_learned [of fg "Some f" now plan lt obs sm mon]
    store_learned_limit_fault_tables [of fg f now plan lt obs sm mon]
    store_learned_limit_returns [of fg plan mon lt obs "Some f" now sm]
    update_intelligent_limits_learned [of fg "Some f" now clock session info mon]
  by simp

theorem database_error_is_swallowed_witness:
  "pd_plan_name example_plan = Some ''pro'' \<and> pd_token_limit example_plan = Some (Some 18500)
   \<and> pd_message_limit example_plan = Some (Some 240)
   \<and> update_enhanced_plan_limit (Some (AtExecute ''database is locked'')) ''2025-01-26T19:00:00''
        example_plan empty_db =
       (Inr (), empty_db\<lparr>elog := [''Failed to update enhanced plan limit: database is locked''],
                         esent := 1\<rparr>)
   \<and> existing_value_of (fst (get_plan_limit None ''pro'' (db_manager example_monitor))) ''token'' 19000
        \<noteq> None
   \<and> fst (store_learned_limit None (Some (AtExecute ''database is locked'')) ''2025-01-26 19:00:00''
        ''pro'' ''token'' 19000 (example_metrics 3600) example_monitor) = Inr ()
   \<and> stored (store_learned_limit None (Some (AtExecute ''database is locked'')) ''2025-01-26 19:00:00''
        ''pro'' ''token'' 19000 (example_metrics 3600) example_monitor) ''pro''
       = plan_limits (db_manager example_monitor) ''pro''"
proof -
  have h: "pd_plan_name example_plan = Some ''pro'' \<and> pd_token_limit example_plan = Some (Some 18500)
   \<and> pd_message_limit example_plan = Some (Some 240)"
    by (simp add: example_plan_def)
  have g: "existing_value_of (fst (get_plan_limit None ''pro'' (db_manager example_monitor))) ''token'' 19000
        \<noteq> None"
    by (simp add: get_plan_limit_def example_monitor_def existing_value_of_def)
  note t = database_error_is_swallowed [of "AtExecute ''database is locked''" "''2025-01-26 19:00:00''"
      "''pro''" _ _ _ example_plan "Some 18500" "Some 240" empty_db None "''token''" 19000
      "example_metrics 3600" example_monitor]
  note u = database_error_is_swallowed [of "AtExecute ''database is locked''" "''2025-01-26T19:00:00''"
      "''pro''" _ _ _ example_plan "Some 18500" "Some 240" empty_db None "''token''" 19000
      "example_metrics 3600" example_monitor]
  from u h have 1: "update_enhanced_plan_limit (Some (AtExecute ''database is locked'')) ''2025-01-26T19:00:00''
        example_plan empty_db =
       (Inr (), empty_db\<lparr>elog := [''Failed to update enhanced plan limit: database is locked''],
                         esent := 1\<rparr>)"
    by (simp add: empty_db_def)
  from t g have 2: "fst (store_learned_limit None (Some (AtExecute ''database is locked'')) ''2025-01-26 19:00:00''
        ''pro'' ''token'' 19000 (example_metrics 3600) example_monitor) = Inr ()"
    by blast
  from t have 3: "plan_limits (db_manager (snd (store_learned_limit None (Some (AtExecute ''database is locked''))
        ''2025-01-26 19:00:00'' ''pro'' ''token'' 19000 (example_metrics 3600) example_monitor)))
       = plan_limits (db_manager example_monitor)"
    by blast
  from h g 1 2 3 show ?thesis by (simp add: stored_def)
qed

end
